theory Spec2Isabelle
  imports Complex_Main
begin

section \<open>Data model\<close>

text \<open>
  The pipeline works on pandas dataframes. A dataframe is modelled column by column, as
  pandas stores it: a list of labelled columns, each column the list of its cells, in
  the order of the rows. Labels may repeat, as pandas allows. A cell is a missing value
  (\<open>Null\<close>), a number or a string. \<open>Null\<close> is the NaN that marks a missing value in a
  numeric column; a None kept in a column of Python objects, on which \<open>abs\<close> would
  raise, is outside the model. Numbers are finite floats read as reals: the infinities
  and the wrap-around of 64-bit integers are outside the model, and so is rounding,
  except in the mean of the aggregation, whose result is a double.
\<close>

datatype cell = Null | Num real | Str string

type_synonym series = "cell list"

type_synonym dataframe = "(string \<times> series) list"

text \<open>Python exceptions, as values. \<open>ValueError\<close> carries its message; \<open>External\<close> stands
  for any exception raised inside a library call (database driver, HTTP, CSV parser).\<close>

datatype error =
    AttributeError
  | IndexError
  | KeyError
  | StopIteration
  | TypeError
  | ValueError string
  | External string

text \<open>\<open>df.columns\<close>: the labels, in order.\<close>

definition columns_of :: "dataframe \<Rightarrow> string list" where
  "columns_of d = map fst d"

text \<open>The number of rows: the length of the index, read off the first column.\<close>

definition nrows :: "dataframe \<Rightarrow> nat" where
  "nrows d = (case d of [] \<Rightarrow> 0 | (l, c) # rest \<Rightarrow> length c)"

text \<open>\<open>df.empty\<close>: true when either axis has length zero.\<close>

definition df_empty :: "dataframe \<Rightarrow> bool" where
  "df_empty d = (d = [] \<or> nrows d = 0)"

text \<open>\<open>df[label]\<close>: KeyError when no column has the label; otherwise every column with
  that label, in order (one column is a Series, several are a sub-frame).\<close>

definition getitem :: "dataframe \<Rightarrow> string \<Rightarrow> error + series list" where
  "getitem d l =
     (case filter (\<lambda>lc. fst lc = l) d of
        [] \<Rightarrow> Inl KeyError
      | cs \<Rightarrow> Inr (map snd cs))"

text \<open>\<open>df.rename(columns=mapper)\<close>: every label that is a key of the mapper is replaced,
  the others stay; the data is not touched.\<close>

definition df_rename :: "(string \<rightharpoonup> string) \<Rightarrow> dataframe \<Rightarrow> dataframe" where
  "df_rename m d = map (\<lambda>lc. (case m (fst lc) of None \<Rightarrow> fst lc | Some l' \<Rightarrow> l', snd lc)) d"

section \<open>The outside world\<close>

text \<open>
  The database and the two remote CSV files are outside the program. Their answers are
  parameters: \<open>connect\<close> is \<open>create_engine\<close> followed by the test connection,
  \<open>read_sql_query\<close> is \<open>pd.read_sql_query\<close> on an open connection, \<open>read_csv\<close> is
  \<open>pd.read_csv\<close> on a URL.
\<close>

datatype engine = Engine string

record env =
  connect :: "string \<Rightarrow> error + engine"
  read_sql_query :: "engine \<Rightarrow> string \<Rightarrow> error + dataframe"
  read_csv :: "string \<Rightarrow> error + dataframe"

section \<open>data\_ingestion\<close>

text \<open>\<open>create_db_engine\<close>: both handlers log and re-raise what they caught.\<close>

definition create_db_engine :: "env \<Rightarrow> string \<Rightarrow> error + engine" where
  "create_db_engine w path =
     (case connect w path of
        Inl e \<Rightarrow> Inl e
      | Inr eng \<Rightarrow> Inr eng)"

definition empty_msg :: string where
  "empty_msg = ''The query returned an empty DataFrame.''"

text \<open>\<open>query_data\<close>: an empty result raises \<open>ValueError\<close> inside the \<open>try\<close>; the
  \<open>except ValueError\<close> handler logs it and raises it again, and every other exception is
  logged and raised again by the second handler.\<close>

definition query_data :: "env \<Rightarrow> engine \<Rightarrow> string \<Rightarrow> error + dataframe" where
  "query_data w eng sql =
     (case read_sql_query w eng sql of
        Inl e \<Rightarrow> Inl e
      | Inr d \<Rightarrow> if df_empty d then Inl (ValueError empty_msg) else Inr d)"

definition read_from_web_CSV :: "env \<Rightarrow> string \<Rightarrow> error + dataframe" where
  "read_from_web_CSV w url =
     (case read_csv w url of
        Inl e \<Rightarrow> Inl e
      | Inr d \<Rightarrow> Inr d)"

section \<open>FieldDataProcessor\<close>

text \<open>
  The attributes that \<open>__init__\<close> sets (the logger apart). \<open>columns_to_rename\<close> is a
  dictionary read through \<open>list(d.keys())[0]\<close> and \<open>list(d.values())[0]\<close>, so its
  insertion order matters: it is the list of its items. \<open>values_to_rename\<close> is only
  looked up, so it is a map. \<open>df\<close> and \<open>engine\<close> start as None.
\<close>

record FieldDataProcessor =
  db_path :: string
  sql_query :: string
  columns_to_rename :: "(string \<times> string) list"
  values_to_rename :: "string \<rightharpoonup> string"
  weather_csv_path :: string
  weather_mapping_csv :: string
  df :: "dataframe option"
  engine :: "engine option"

text \<open>A method returns its value or the exception it raised, and the object as the call
  left it.\<close>

type_synonym 'a field_result = "(error + 'a) \<times> FieldDataProcessor"

subsection \<open>rename\_columns\<close>

text \<open>The \<open>while\<close> loop that makes the placeholder label fresh.\<close>

function temp_name_loop :: "string list \<Rightarrow> string \<Rightarrow> string" where
  "temp_name_loop cols temp_name =
     (if temp_name \<in> set cols then temp_name_loop cols (temp_name @ ''_'') else temp_name)"
  by pat_completeness auto
termination
proof (relation "measure (\<lambda>(cols, t). Suc (sum_list (map length cols)) - length t)")
  show "wf (measure (\<lambda>(cols, t). Suc (sum_list (map length cols)) - length t))"
    by simp
next
  fix cols :: "string list" and temp_name :: string
  assume "temp_name \<in> set cols"
  then have "length temp_name \<in> set (map length cols)"
    by simp
  then have "length temp_name \<le> sum_list (map length cols)"
    by (simp add: member_le_sum_list)
  then show "((cols, temp_name @ ''_''), (cols, temp_name))
      \<in> measure (\<lambda>(cols, t). Suc (sum_list (map length cols)) - length t)"
    by simp
qed

declare temp_name_loop.simps [simp del]

text \<open>
  \<open>list(...)[0]\<close> raises IndexError on an empty dictionary, and \<open>self.df.columns\<close> raises
  AttributeError while \<open>df\<close> is None. The dictionary literal
  \<open>{column1: temp_name, column2: column1}\<close> keeps the later entry when both keys are equal,
  as the map update does.
\<close>

definition rename_columns :: "FieldDataProcessor \<Rightarrow> unit field_result" where
  "rename_columns p =
     (case columns_to_rename p of
        [] \<Rightarrow> (Inl IndexError, p)
      | (column1, column2) # rest \<Rightarrow>
          (case df p of
             None \<Rightarrow> (Inl AttributeError, p)
           | Some d \<Rightarrow>
               (let temp_name = temp_name_loop (columns_of d) ''__temp_name_for_swap__'';
                    d1 = df_rename [column1 \<mapsto> temp_name, column2 \<mapsto> column1] d;
                    d2 = df_rename [temp_name \<mapsto> column2] d1
                in (Inr (), p\<lparr>df := Some d2\<rparr>))))"

subsection \<open>apply\_corrections\<close>

text \<open>\<open>abs\<close> of one cell: a number loses its sign, a missing value of a numeric column
  (NaN) stays missing, a string raises TypeError.\<close>

definition cell_abs :: "cell \<Rightarrow> error + cell" where
  "cell_abs c = (case c of Null \<Rightarrow> Inr Null | Num x \<Rightarrow> Inr (Num \<bar>x\<bar>) | Str s \<Rightarrow> Inl TypeError)"

text \<open>A function that may raise, applied to every element in order; the first exception
  ends the traversal.\<close>

fun try_map :: "('a \<Rightarrow> error + 'b) \<Rightarrow> 'a list \<Rightarrow> error + 'b list" where
  "try_map f [] = Inr []"
| "try_map f (x # xs) =
     (case f x of
        Inl e \<Rightarrow> Inl e
      | Inr y \<Rightarrow> (case try_map f xs of Inl e \<Rightarrow> Inl e | Inr ys \<Rightarrow> Inr (y # ys)))"

text \<open>\<open>Series.abs()\<close>, and \<open>DataFrame.abs()\<close> on the sub-frame that a repeated label
  selects.\<close>

definition series_abs :: "series \<Rightarrow> error + series" where
  "series_abs s = try_map cell_abs s"

definition frame_abs :: "series list \<Rightarrow> error + series list" where
  "frame_abs cols = try_map series_abs cols"

text \<open>\<open>df[label] = value\<close>: the columns that carry the label take the new data, in order
  and in place; a label that no column carries is appended.\<close>

fun replace_cols :: "dataframe \<Rightarrow> string \<Rightarrow> series list \<Rightarrow> dataframe" where
  "replace_cols [] l vs = []"
| "replace_cols ((l', c) # d) l vs =
     (if l' = l
      then (case vs of
              [] \<Rightarrow> (l', c) # replace_cols d l []
            | v # vs' \<Rightarrow> (l', v) # replace_cols d l vs')
      else (l', c) # replace_cols d l vs)"

definition setitem :: "dataframe \<Rightarrow> string \<Rightarrow> series list \<Rightarrow> dataframe" where
  "setitem d l vs =
     (if l \<in> set (columns_of d) then replace_cols d l vs else d @ map (\<lambda>v. (l, v)) vs)"

text \<open>The lambda \<open>lambda crop: self.values_to_rename.get(crop, crop)\<close>. The keys of the
  dictionary are strings, so a cell that is not a string is never found.\<close>

definition rename_value :: "(string \<rightharpoonup> string) \<Rightarrow> cell \<Rightarrow> cell" where
  "rename_value m crop =
     (case crop of
        Str s \<Rightarrow> (case m s of None \<Rightarrow> crop | Some canonical \<Rightarrow> Str canonical)
      | _ \<Rightarrow> crop)"

text \<open>
  The first statement replaces the \<open>abs_column\<close> data in \<open>self.df\<close>; the second reads
  \<open>column_name\<close> from the frame so changed. Subscripting None raises TypeError. When the
  label \<open>column_name\<close> is repeated, \<open>apply\<close> hands whole columns to the lambda, and a
  column cannot be hashed as a dictionary key: TypeError, after the first statement has
  taken effect.
\<close>

definition apply_corrections ::
  "FieldDataProcessor \<Rightarrow> string \<Rightarrow> string \<Rightarrow> unit field_result" where
  "apply_corrections p column_name abs_column =
     (case df p of
        None \<Rightarrow> (Inl TypeError, p)
      | Some d \<Rightarrow>
          (case getitem d abs_column of
             Inl e \<Rightarrow> (Inl e, p)
           | Inr cols \<Rightarrow>
               (case frame_abs cols of
                  Inl e \<Rightarrow> (Inl e, p)
                | Inr cols' \<Rightarrow>
                    (let d1 = setitem d abs_column cols';
                         p1 = p\<lparr>df := Some d1\<rparr>
                     in (case getitem d1 column_name of
                           Inl e \<Rightarrow> (Inl e, p1)
                         | Inr [s] \<Rightarrow>
                             (Inr (),
                              p1\<lparr>df := Some (setitem d1 column_name
                                                [map (rename_value (values_to_rename p)) s])\<rparr>)
                         | Inr _ \<Rightarrow> (Inl TypeError, p1))))))"

text \<open>The call with the default arguments, as \<open>process\<close> makes it.\<close>

definition apply_corrections_default :: "FieldDataProcessor \<Rightarrow> unit field_result" where
  "apply_corrections_default p = apply_corrections p ''Crop_type'' ''Elevation''"

subsection \<open>ingest\_sql\_data\<close>

text \<open>
  Line 87 does not call the imported function \<open>query_data\<close>: it reads the attribute
  \<open>query_data\<close> of \<open>config_params\<close>, the dictionary imported from the configuration
  module. A dictionary has the attributes of \<open>dict\<close> and no others.
\<close>

definition dict_attrs :: "string list" where
  "dict_attrs = [''clear'', ''copy'', ''fromkeys'', ''get'', ''items'', ''keys'', ''pop'',
                 ''popitem'', ''setdefault'', ''update'', ''values'']"

definition config_params_getattr :: "string \<Rightarrow> error + unit" where
  "config_params_getattr name =
     (if name \<in> set dict_attrs then Inr () else Inl AttributeError)"

text \<open>
  \<open>self.engine\<close> is assigned before the attribute is read. The branch in which the
  attribute would resolve holds the call the line was written for, to \<open>query_data\<close>.
\<close>

definition ingest_sql_data :: "env \<Rightarrow> FieldDataProcessor \<Rightarrow> dataframe field_result" where
  "ingest_sql_data w p =
     (case create_db_engine w (db_path p) of
        Inl e \<Rightarrow> (Inl e, p)
      | Inr eng \<Rightarrow>
          (let p1 = p\<lparr>engine := Some eng\<rparr>
           in (case config_params_getattr ''query_data'' of
                 Inl e \<Rightarrow> (Inl e, p1)
               | Inr u \<Rightarrow>
                   (case query_data w eng (sql_query p1) of
                      Inl e \<Rightarrow> (Inl e, p1)
                    | Inr d \<Rightarrow> (Inr d, p1\<lparr>df := Some d\<rparr>)))))"

subsection \<open>weather\_station\_mapping\<close>

text \<open>
  Attribute lookup on the processor. \<open>__init__\<close> sets the six configuration attributes,
  \<open>logger\<close>, \<open>df\<close> and \<open>engine\<close>, and the class defines six methods; every other name
  raises AttributeError. Only the string attributes can serve as a URL.
\<close>

datatype attr = AStr string | AOther

definition processor_getattr :: "FieldDataProcessor \<Rightarrow> string \<Rightarrow> error + attr" where
  "processor_getattr p name =
     (if name = ''db_path'' then Inr (AStr (db_path p))
      else if name = ''sql_query'' then Inr (AStr (sql_query p))
      else if name = ''weather_csv_path'' then Inr (AStr (weather_csv_path p))
      else if name = ''weather_mapping_csv'' then Inr (AStr (weather_mapping_csv p))
      else if name \<in> set [''columns_to_rename'', ''values_to_rename'', ''logger'', ''df'',
                          ''engine'', ''initialize_logging'', ''ingest_sql_data'',
                          ''rename_columns'', ''apply_corrections'',
                          ''weather_station_mapping'', ''process'']
      then Inr AOther
      else Inl AttributeError)"

text \<open>
  \<open>self.df.merge\<close> is looked up first (AttributeError on None), then the argument
  \<open>read_from_web_CSV(self.weather_map_data)\<close> is evaluated, then pandas joins. The join
  \<open>merge(..., on='Field_ID', how='outer')\<close> is a parameter.
\<close>

definition weather_station_mapping ::
  "env \<Rightarrow> (dataframe \<Rightarrow> dataframe \<Rightarrow> string \<Rightarrow> error + dataframe) \<Rightarrow>
   FieldDataProcessor \<Rightarrow> unit field_result" where
  "weather_station_mapping w merge_outer p =
     (case df p of
        None \<Rightarrow> (Inl AttributeError, p)
      | Some d \<Rightarrow>
          (case processor_getattr p ''weather_map_data'' of
             Inl e \<Rightarrow> (Inl e, p)
           | Inr AOther \<Rightarrow> (Inl (External ''read_csv''), p)
           | Inr (AStr url) \<Rightarrow>
               (case read_from_web_CSV w url of
                  Inl e \<Rightarrow> (Inl e, p)
                | Inr mapping \<Rightarrow>
                    (case merge_outer d mapping ''Field_ID'' of
                       Inl e \<Rightarrow> (Inl e, p)
                     | Inr joined \<Rightarrow> (Inr (), p\<lparr>df := Some joined\<rparr>)))))"

section \<open>WeatherDataProcessor\<close>

text \<open>\<open>patterns\<close> is a dictionary iterated with \<open>items()\<close>: the list of its items, in
  insertion order, each a measurement kind and a regular expression.\<close>

record WeatherDataProcessor =
  weather_station_data :: string
  patterns :: "(string \<times> string) list"
  weather_df :: "dataframe option"

text \<open>A Python float: a finite value, an infinity or NaN.\<close>

datatype pyfloat = Fin real | PosInf | NegInf | NaN

subsection \<open>extract\_measurement\<close>

text \<open>\<open>next(x for x in match.groups() if x is not None)\<close>: the first group that took part
  in the match; None here stands for StopIteration.\<close>

fun first_not_none :: "'a option list \<Rightarrow> 'a option" where
  "first_not_none [] = None"
| "first_not_none (None # xs) = first_not_none xs"
| "first_not_none (Some x # xs) = Some x"

text \<open>The fixed part of the message of the ValueError that \<open>float\<close> raises; Python appends
  the text it could not convert.\<close>

definition float_msg :: string where
  "float_msg = ''could not convert string to float''"

text \<open>
  The two library calls are parameters: \<open>search pattern message\<close> is \<open>re.search\<close>, None
  when nothing matches and otherwise the tuple \<open>match.groups()\<close>, in which a group that
  did not take part is None; \<open>to_float\<close> is the builtin \<open>float\<close>, None when it raises
  ValueError. The \<open>for\<close> loop returns at the first pattern that matches.
\<close>

fun extract_loop ::
  "(string \<Rightarrow> string \<Rightarrow> string option list option) \<Rightarrow> (string \<Rightarrow> pyfloat option) \<Rightarrow>
   (string \<times> string) list \<Rightarrow> string \<Rightarrow> error + (string option \<times> pyfloat option)" where
  "extract_loop search to_float [] message = Inr (None, None)"
| "extract_loop search to_float ((key, pattern) # rest) message =
     (case search pattern message of
        None \<Rightarrow> extract_loop search to_float rest message
      | Some groups \<Rightarrow>
          (case first_not_none groups of
             None \<Rightarrow> Inl StopIteration
           | Some x \<Rightarrow>
               (case to_float x of
                  None \<Rightarrow> Inl (ValueError float_msg)
                | Some v \<Rightarrow> Inr (Some key, Some v))))"

definition extract_measurement ::
  "(string \<Rightarrow> string \<Rightarrow> string option list option) \<Rightarrow> (string \<Rightarrow> pyfloat option) \<Rightarrow>
   WeatherDataProcessor \<Rightarrow> string \<Rightarrow> error + (string option \<times> pyfloat option)" where
  "extract_measurement search to_float p message =
     extract_loop search to_float (patterns p) message"

subsection \<open>calculate\_means\<close>

text \<open>A grouping key must be one column: KeyError when the label is absent, ValueError
  when it is repeated. The aggregated column is read the same way; a table in which
  its label is repeated is outside what the model describes.\<close>

definition single_col :: "dataframe \<Rightarrow> string \<Rightarrow> error + series" where
  "single_col d l =
     (case getitem d l of
        Inl e \<Rightarrow> Inl e
      | Inr [s] \<Rightarrow> Inr s
      | Inr _ \<Rightarrow> Inl (ValueError ''not 1-dimensional''))"

text \<open>
  \<open>groupby(by=[station, kind])\<close> drops the rows in which a key is missing; the groups are
  the keys that remain. pandas lists the groups sorted by key; nothing depends on
  that order, and the model keeps the order of first occurrence.
\<close>

definition group_keys :: "(cell \<times> cell \<times> cell) list \<Rightarrow> (cell \<times> cell) list" where
  "group_keys rows =
     remdups (map (\<lambda>r. (fst r, fst (snd r)))
                  (filter (\<lambda>r. fst r \<noteq> Null \<and> fst (snd r) \<noteq> Null) rows))"

definition group_values :: "(cell \<times> cell \<times> cell) list \<Rightarrow> cell \<times> cell \<Rightarrow> real list" where
  "group_values rows key =
     List.map_filter
       (\<lambda>r. if (fst r, fst (snd r)) = key
            then (case snd (snd r) of Num x \<Rightarrow> Some x | _ \<Rightarrow> None)
            else None)
       rows"

text \<open>
  The mean of a group is computed by pandas in double precision, and what it returns
  is a double: an integer divided by a power of two. \<open>Double m n\<close> stands for
  \<open>m / 2 ^ n\<close>. Which double the library returns for the numbers of a group is a
  parameter, \<open>float_mean\<close>, a function of those numbers in the order of the rows. A sum
  that overflows is outside the model.
\<close>

datatype double = Double int nat

definition double_val :: "double \<Rightarrow> real" where
  "double_val x = (case x of Double m n \<Rightarrow> real_of_int m / 2 ^ n)"

text \<open>\<open>mean()\<close> skips the missing values of a group and is NaN (None here) when nothing
  is left.\<close>

definition mean_skipna :: "(real list \<Rightarrow> double) \<Rightarrow> real list \<Rightarrow> real option" where
  "mean_skipna float_mean xs = (if xs = [] then None else Some (double_val (float_mean xs)))"

definition groupby_mean ::
  "(real list \<Rightarrow> double) \<Rightarrow> (cell \<times> cell \<times> cell) list \<Rightarrow>
   ((cell \<times> cell) \<times> real option) list" where
  "groupby_mean float_mean rows =
     map (\<lambda>key. (key, mean_skipna float_mean (group_values rows key))) (group_keys rows)"

text \<open>\<open>unstack()\<close>: the stations of the groups become the index, the kinds the columns;
  a position with no group is filled with NaN.\<close>

record pivot =
  pv_index :: "cell set"
  pv_columns :: "cell set"
  pv_value :: "cell \<Rightarrow> cell \<Rightarrow> real option"

definition unstack :: "((cell \<times> cell) \<times> real option) list \<Rightarrow> pivot" where
  "unstack means =
     \<lparr>pv_index = fst ` fst ` set means,
      pv_columns = snd ` fst ` set means,
      pv_value = (\<lambda>s k. case map_of means (s, k) of None \<Rightarrow> None | Some m \<Rightarrow> m)\<rparr>"

definition is_str :: "cell \<Rightarrow> bool" where
  "is_str c = (case c of Str s \<Rightarrow> True | _ \<Rightarrow> False)"

text \<open>The values of the rows that \<open>groupby\<close> keeps.\<close>

definition grouped_cells :: "(cell \<times> cell \<times> cell) list \<Rightarrow> cell list" where
  "grouped_cells rows =
     map (\<lambda>r. snd (snd r)) (filter (\<lambda>r. fst r \<noteq> Null \<and> fst (snd r) \<noteq> Null) rows)"

text \<open>The result is None when the table was never loaded. A string among the values
  of a group makes \<open>mean\<close> raise TypeError; a string in a row that \<open>groupby\<close> drops does
  not.\<close>

definition calculate_means ::
  "(real list \<Rightarrow> double) \<Rightarrow> WeatherDataProcessor \<Rightarrow> error + pivot option" where
  "calculate_means float_mean p =
     (case weather_df p of
        None \<Rightarrow> Inr None
      | Some d \<Rightarrow>
          (case single_col d ''Weather_station_ID'' of
             Inl e \<Rightarrow> Inl e
           | Inr stations \<Rightarrow>
               (case single_col d ''Measurement'' of
                  Inl e \<Rightarrow> Inl e
                | Inr kinds \<Rightarrow>
                    (case single_col d ''Value'' of
                       Inl e \<Rightarrow> Inl e
                     | Inr vals \<Rightarrow>
                         (let rows = zip stations (zip kinds vals)
                          in if list_ex is_str (grouped_cells rows) then Inl TypeError
                             else Inr (Some (unstack (groupby_mean float_mean rows))))))))"

section \<open>Comparative analysis\<close>

text \<open>The comparison \<open><\<close> of two floats: false as soon as one of them is NaN.\<close>

fun float_lt :: "pyfloat \<Rightarrow> pyfloat \<Rightarrow> bool" where
  "float_lt NaN y = False"
| "float_lt x NaN = False"
| "float_lt (Fin a) (Fin b) = (a < b)"
| "float_lt (Fin a) PosInf = True"
| "float_lt (Fin a) NegInf = False"
| "float_lt PosInf y = False"
| "float_lt NegInf (Fin b) = True"
| "float_lt NegInf PosInf = True"
| "float_lt NegInf NegInf = False"

definition reject_line :: string where
  "reject_line = ''  Null hypothesis rejected: There is a significant difference.''"

definition not_reject_line :: string where
  "not_reject_line = ''  Null hypothesis not rejected: There is no significant difference.''"

text \<open>
  \<open>print_ttest_results\<close> writes three lines to standard output; the model returns them.
  The two formatting steps of the f-strings are parameters: \<open>str_of\<close> renders the station
  identifier, \<open>fmt5\<close> is the format \<open>.5f\<close>.
\<close>

definition print_ttest_results ::
  "(int \<Rightarrow> string) \<Rightarrow> (pyfloat \<Rightarrow> string) \<Rightarrow> int \<Rightarrow> string \<Rightarrow> pyfloat \<Rightarrow> pyfloat \<Rightarrow> string list" where
  "print_ttest_results str_of fmt5 station_id measurement p_val alpha =
     [''T-test results for station '' @ str_of station_id @ '' and measurement '' @
        [CHR 0x27] @ measurement @ [CHR 0x27] @ '':'',
      ''  p-value: '' @ fmt5 p_val,
      if float_lt p_val alpha then reject_line else not_reject_line]"

section \<open>Notions used in the statements\<close>

text \<open>The sign removed from a cell, where \<open>abs\<close> does not raise.\<close>

definition abs_val :: "cell \<Rightarrow> cell" where
  "abs_val c = (case c of Num x \<Rightarrow> Num \<bar>x\<bar> | _ \<Rightarrow> c)"

text \<open>One function applied to the data of every column that carries a label; the
  labels and the other columns stay.\<close>

definition map_col :: "string \<Rightarrow> (series \<Rightarrow> series) \<Rightarrow> dataframe \<Rightarrow> dataframe" where
  "map_col l f d = map (\<lambda>lc. if fst lc = l then (fst lc, f (snd lc)) else lc) d"

text \<open>The exchange of two labels, as the specification describes it.\<close>

definition swap_label :: "string \<Rightarrow> string \<Rightarrow> string \<Rightarrow> string" where
  "swap_label A B l = (if l = A then B else if l = B then A else l)"

section \<open>Example inputs\<close>

text \<open>A survey table of two rows as the database delivers it, the crop and the yield
  under each other's label, one elevation negative and one crop misspelt.\<close>

definition field_table :: dataframe where
  "field_table =
     [(''Field_ID'', [Num 1, Num 2]),
      (''Elevation'', [Num (- 3), Num 4]),
      (''Annual_yield'', [Str ''wheatn'', Str ''tea'']),
      (''Crop_type'', [Num (1 / 2), Num 2])]"

text \<open>The processor that \<open>__init__\<close> builds from the shipped configuration, holding that
  table.\<close>

definition field_example :: FieldDataProcessor where
  "field_example =
     \<lparr>db_path = ''sqlite:///farm-survey.db'',
      sql_query = ''SELECT * FROM geographic_features'',
      columns_to_rename = [(''Annual_yield'', ''Crop_type''), (''Crop_type'', ''Annual_yield'')],
      values_to_rename =
        [''cassaval'' \<mapsto> ''cassava'', ''wheatn'' \<mapsto> ''wheat'', ''teaa'' \<mapsto> ''tea''],
      weather_csv_path = ''Weather_station_data.csv'',
      weather_mapping_csv = ''Weather_data_field_mapping.csv'',
      df = Some field_table,
      engine = None\<rparr>"

text \<open>The same processor before ingestion: no table yet.\<close>

definition field_start :: FieldDataProcessor where
  "field_start = field_example\<lparr>df := None\<rparr>"

text \<open>A query that selects no row, and the station-mapping table of the second CSV
  file.\<close>

definition empty_query :: string where
  "empty_query = ''SELECT * FROM geographic_features WHERE 1 = 0''"

definition mapping_table :: dataframe where
  "mapping_table = [(''Field_ID'', [Num 1, Num 3]), (''Weather_station'', [Num 0, Num 4])]"

text \<open>A world in which the configured database answers, the configured query returns
  the survey table, the empty query returns the header alone, and the mapping file can
  be fetched.\<close>

definition db_example :: env where
  "db_example =
     \<lparr>connect = (\<lambda>path. if path = ''sqlite:///farm-survey.db'' then Inr (Engine path)
                         else Inl (External ''OperationalError'')),
      read_sql_query = (\<lambda>eng sql.
         if sql = ''SELECT * FROM geographic_features'' then Inr field_table
         else if sql = empty_query then Inr [(''Field_ID'', []), (''Elevation'', [])]
         else Inl (External ''OperationalError'')),
      read_csv = (\<lambda>url. if url = ''Weather_data_field_mapping.csv'' then Inr mapping_table
                         else Inl (External ''HTTPError''))\<rparr>"

text \<open>
  Three extraction patterns and what \<open>re.search\<close> and \<open>float\<close> answer on a few messages:
  a temperature pattern with one group; a rainfall pattern whose only group is
  optional, so that it can match with the group taking no part; a pattern with a word
  group before the number.
\<close>

definition temp_pattern :: string where
  "temp_pattern = ''Temperature: ([0-9.]+) C''"

definition rain_pattern :: string where
  "rain_pattern = ''Rainfall: ([0-9.]+)?''"

definition keyed_pattern :: string where
  "keyed_pattern = ''([A-Za-z]+)=([0-9.]+)''"

definition search_example :: "string \<Rightarrow> string \<Rightarrow> string option list option" where
  "search_example pattern message =
     (if pattern = temp_pattern \<and> message = ''Temperature: 19.5 C'' then Some [Some ''19.5'']
      else if pattern = temp_pattern \<and> message = ''Temperature: 1.2.3 C'' then Some [Some ''1.2.3'']
      else if pattern = rain_pattern \<and> message = ''Rainfall: none'' then Some [None]
      else if pattern = keyed_pattern \<and> message = ''temp=19.5'' then Some [Some ''temp'', Some ''19.5'']
      else None)"

definition to_float_example :: "string \<Rightarrow> pyfloat option" where
  "to_float_example s = (if s = ''19.5'' then Some (Fin (39 / 2)) else None)"

text \<open>Two weather processors, before any table is loaded.\<close>

definition weather_example :: WeatherDataProcessor where
  "weather_example =
     \<lparr>weather_station_data = ''Weather_station_data.csv'',
      patterns = [(''Rainfall'', rain_pattern), (''Temperature'', temp_pattern)],
      weather_df = None\<rparr>"

definition weather_keyed :: WeatherDataProcessor where
  "weather_keyed =
     \<lparr>weather_station_data = ''Weather_station_data.csv'',
      patterns = [(''Temperature'', keyed_pattern)],
      weather_df = None\<rparr>"

text \<open>A correction mapping in which a canonical form is itself a key.\<close>

definition chain_mapping :: "string \<rightharpoonup> string" where
  "chain_mapping = [''teaa'' \<mapsto> ''tea'', ''tea'' \<mapsto> ''Tea'']"

text \<open>The survey table after the relabelling, and after the value correction.\<close>

definition renamed_table :: dataframe where
  "renamed_table =
     [(''Field_ID'', [Num 1, Num 2]),
      (''Elevation'', [Num (- 3), Num 4]),
      (''Crop_type'', [Str ''wheatn'', Str ''tea'']),
      (''Annual_yield'', [Num (1 / 2), Num 2])]"

definition corrected_table :: dataframe where
  "corrected_table =
     [(''Field_ID'', [Num 1, Num 2]),
      (''Elevation'', [Num 3, Num 4]),
      (''Crop_type'', [Str ''wheat'', Str ''tea'']),
      (''Annual_yield'', [Num (1 / 2), Num 2])]"

definition field_renamed :: FieldDataProcessor where
  "field_renamed = field_example\<lparr>df := Some renamed_table\<rparr>"






section \<open>Column relabel\<close>

lemma temp_name_loop_fresh: "temp_name_loop cols t \<notin> set cols"
proof (induction cols t rule: temp_name_loop.induct)
  case (1 cols temp_name)
  show ?case
  proof (cases "temp_name \<in> set cols")
    case True
    with 1 show ?thesis
      by (simp add: temp_name_loop.simps [of cols temp_name])
  next
    case False
    then show ?thesis
      by (simp add: temp_name_loop.simps [of cols temp_name])
  qed
qed

lemma swap_label_twice: "swap_label A B (swap_label A B l) = l"
  by (simp add: swap_label_def)

lemma two_renames_swap:
  assumes fresh: "t \<notin> set (columns_of d)" and A: "A \<in> set (columns_of d)"
  shows "df_rename [t \<mapsto> B] (df_rename [A \<mapsto> t, B \<mapsto> A] d)
         = map (\<lambda>lc. (swap_label A B (fst lc), snd lc)) d"
proof -
  from fresh A have tA: "t \<noteq> A"
    by auto
  have "\<And>lc. lc \<in> set d \<Longrightarrow> fst lc \<noteq> t"
    using fresh by (auto simp: columns_of_def)
  with tA show ?thesis
    by (auto simp: df_rename_def swap_label_def)
qed

lemma getitem_alt:
  "getitem d l =
     (if map snd (filter (\<lambda>lc. fst lc = l) d) = [] then Inl KeyError
      else Inr (map snd (filter (\<lambda>lc. fst lc = l) d)))"
  by (simp add: getitem_def split: list.splits)

lemma getitem_map_label:
  assumes "\<And>lc. lc \<in> set d \<Longrightarrow> (f (fst lc) = l') = (fst lc = l)"
  shows "getitem (map (\<lambda>lc. (f (fst lc), snd lc)) d) l' = getitem d l"
proof -
  have "map snd (filter (\<lambda>lc. fst lc = l') (map (\<lambda>lc. (f (fst lc), snd lc)) d))
        = map snd (filter (\<lambda>lc. fst lc = l) d)"
    using assms by (induction d) auto
  then show ?thesis
    by (simp only: getitem_alt)
qed

lemma rename_columns_swap:
  assumes "columns_to_rename p = (A, B) # rest" and "df p = Some d"
    and "A \<in> set (columns_of d)"
  shows "rename_columns p
         = (Inr (), p\<lparr>df := Some (map (\<lambda>lc. (swap_label A B (fst lc), snd lc)) d)\<rparr>)"
  using assms
  by (simp add: rename_columns_def Let_def two_renames_swap temp_name_loop_fresh)

text \<open>
  Claim C1. Let the first item of \<open>columns_to_rename\<close> be \<open>(A, B)\<close> and let the table
  hold a column labelled \<open>A\<close> and a column labelled \<open>B\<close>. Then \<open>rename_columns\<close> succeeds;
  the new table has the same columns in the same places with the same data, and only
  the labels \<open>A\<close> and \<open>B\<close> are exchanged: what \<open>df[A]\<close> gave is now \<open>df[B]\<close> and the other
  way round, and every other label gives what it gave. A second call gives back the
  processor it started from, labels and data.
\<close>

theorem rename_columns_true_swap:
  assumes cfg: "columns_to_rename p = (A, B) # rest"
    and d: "df p = Some d"
    and A: "A \<in> set (columns_of d)"
    and B: "B \<in> set (columns_of d)"
  shows "\<exists>d'. rename_columns p = (Inr (), p\<lparr>df := Some d'\<rparr>)
           \<and> length d' = length d
           \<and> (\<forall>i < length d. snd (d' ! i) = snd (d ! i)
                \<and> fst (d' ! i) = (if fst (d ! i) = A then B
                                  else if fst (d ! i) = B then A else fst (d ! i)))
           \<and> getitem d' B = getitem d A
           \<and> getitem d' A = getitem d B
           \<and> (\<forall>l. l \<noteq> A \<and> l \<noteq> B \<longrightarrow> getitem d' l = getitem d l)
           \<and> rename_columns (p\<lparr>df := Some d'\<rparr>) = (Inr (), p)"
proof -
  let ?d' = "map (\<lambda>lc. (swap_label A B (fst lc), snd lc)) d"
  have first: "rename_columns p = (Inr (), p\<lparr>df := Some ?d'\<rparr>)"
    using cfg d A by (rule rename_columns_swap)
  have len: "length ?d' = length d"
    by simp
  have pointwise: "\<forall>i < length d. snd (?d' ! i) = snd (d ! i)
         \<and> fst (?d' ! i) = (if fst (d ! i) = A then B
                            else if fst (d ! i) = B then A else fst (d ! i))"
    by (simp add: swap_label_def)
  have gB: "getitem ?d' B = getitem d A"
    by (rule getitem_map_label) (auto simp: swap_label_def)
  have gA: "getitem ?d' A = getitem d B"
    by (rule getitem_map_label) (auto simp: swap_label_def)
  have other: "\<forall>l. l \<noteq> A \<and> l \<noteq> B \<longrightarrow> getitem ?d' l = getitem d l"
    by (intro allI impI getitem_map_label) (auto simp: swap_label_def)
  have A': "A \<in> set (columns_of ?d')"
  proof -
    from B obtain lc where lc: "lc \<in> set d" "fst lc = B"
      by (auto simp: columns_of_def)
    then have "swap_label A B (fst lc) \<in> set (columns_of ?d')"
      by (force simp: columns_of_def)
    with lc(2) show ?thesis
      by (simp add: swap_label_def split: if_splits)
  qed
  have again: "map (\<lambda>lc. (swap_label A B (fst lc), snd lc)) ?d' = d"
    by (simp add: swap_label_twice comp_def)
  have "rename_columns (p\<lparr>df := Some ?d'\<rparr>)
        = (Inr (), p\<lparr>df := Some ?d'\<rparr>\<lparr>df := Some (map (\<lambda>lc. (swap_label A B (fst lc), snd lc)) ?d')\<rparr>)"
    by (rule rename_columns_swap [where rest = rest]) (use cfg A' in simp_all)
  then have second: "rename_columns (p\<lparr>df := Some ?d'\<rparr>) = (Inr (), p)"
    using d by (simp only: again) simp
  show ?thesis
    by (intro exI [of _ ?d'] conjI) (rule first len pointwise gB gA other second)+
qed

theorem rename_columns_true_swap_witness:
  "columns_to_rename field_example
     = (''Annual_yield'', ''Crop_type'') # [(''Crop_type'', ''Annual_yield'')]
   \<and> df field_example = Some field_table
   \<and> ''Annual_yield'' \<in> set (columns_of field_table)
   \<and> ''Crop_type'' \<in> set (columns_of field_table)
   \<and> fst (rename_columns field_example) = Inr ()
   \<and> rename_columns (snd (rename_columns field_example)) = (Inr (), field_example)"
proof -
  have h1: "columns_to_rename field_example
              = (''Annual_yield'', ''Crop_type'') # [(''Crop_type'', ''Annual_yield'')]"
    by (simp add: field_example_def)
  have h2: "df field_example = Some field_table"
    by (simp add: field_example_def)
  have h3: "''Annual_yield'' \<in> set (columns_of field_table)"
    by (simp add: field_table_def columns_of_def)
  have h4: "''Crop_type'' \<in> set (columns_of field_table)"
    by (simp add: field_table_def columns_of_def)
  from rename_columns_true_swap [OF h1 h2 h3 h4]
  obtain d' where "rename_columns field_example = (Inr (), field_example\<lparr>df := Some d'\<rparr>)"
    and "rename_columns (field_example\<lparr>df := Some d'\<rparr>) = (Inr (), field_example)"
    by blast
  with h1 h2 h3 h4 show ?thesis
    by simp
qed

section \<open>Empty query results\<close>

text \<open>
  Claim C7. When the query runs and delivers a table, \<open>query_data\<close> raises the
  \<open>ValueError\<close> with the empty-result message if the table has no row, and returns the
  table itself if it has at least one row.
\<close>

theorem query_data_empty_result:
  assumes "read_sql_query w eng sql = Inr t"
  shows "(nrows t = 0 \<longrightarrow> query_data w eng sql = Inl (ValueError empty_msg))
       \<and> (0 < nrows t \<longrightarrow> query_data w eng sql = Inr t)"
  using assms by (auto simp: query_data_def df_empty_def nrows_def)

theorem query_data_empty_result_witness:
  "read_sql_query db_example (Engine ''sqlite:///farm-survey.db'') empty_query
     = Inr [(''Field_ID'', []), (''Elevation'', [])]
   \<and> nrows [(''Field_ID'', []), (''Elevation'', [])] = 0
   \<and> query_data db_example (Engine ''sqlite:///farm-survey.db'') empty_query
       = Inl (ValueError empty_msg)
   \<and> read_sql_query db_example (Engine ''sqlite:///farm-survey.db'')
        ''SELECT * FROM geographic_features'' = Inr field_table
   \<and> 0 < nrows field_table
   \<and> query_data db_example (Engine ''sqlite:///farm-survey.db'')
        ''SELECT * FROM geographic_features'' = Inr field_table"
proof -
  let ?e = "Engine ''sqlite:///farm-survey.db''"
  have r0: "read_sql_query db_example ?e empty_query = Inr [(''Field_ID'', []), (''Elevation'', [])]"
    by (simp add: db_example_def empty_query_def)
  have n0: "nrows [(''Field_ID'', []), (''Elevation'', [])] = 0"
    by (simp add: nrows_def)
  have r1: "read_sql_query db_example ?e ''SELECT * FROM geographic_features'' = Inr field_table"
    by (simp add: db_example_def)
  have n1: "0 < nrows field_table"
    by (simp add: nrows_def field_table_def)
  from query_data_empty_result [OF r0] query_data_empty_result [OF r1] r0 n0 r1 n1
  show ?thesis
    by simp
qed

section \<open>Ingestion\<close>

text \<open>Whatever the world answers, \<open>ingest_sql_data\<close> returns no table and leaves \<open>df\<close> as
  it was: the attribute lookup on the configuration dictionary fails first.\<close>

lemma ingest_sql_data_never_succeeds:
  "fst (ingest_sql_data w p) \<noteq> Inr d \<and> df (snd (ingest_sql_data w p)) = df p"
  by (simp add: ingest_sql_data_def config_params_getattr_def dict_attrs_def Let_def
           split: sum.splits)

text \<open>
  Claim C3. The specification has the ingest step connect, run the query and keep the
  result as the processor's table. With the shipped configuration, in a world where the
  connection opens and \<open>query_data\<close> would return the survey table, \<open>ingest_sql_data\<close>
  raises AttributeError once the engine is stored: the query is never run and \<open>df\<close> is
  still None.
\<close>

theorem ingest_sql_data_attribute_error:
  "ingest_sql_data db_example field_start
     = (Inl AttributeError, field_start\<lparr>engine := Some (Engine ''sqlite:///farm-survey.db'')\<rparr>)
   \<and> df (snd (ingest_sql_data db_example field_start)) = None
   \<and> create_db_engine db_example (db_path field_start) = Inr (Engine ''sqlite:///farm-survey.db'')
   \<and> query_data db_example (Engine ''sqlite:///farm-survey.db'') (sql_query field_start)
       = Inr field_table"
  by (simp add: ingest_sql_data_def config_params_getattr_def dict_attrs_def Let_def
        create_db_engine_def db_example_def field_start_def field_example_def
        query_data_def df_empty_def nrows_def field_table_def)

section \<open>Enrichment join\<close>

text \<open>The join is never reached: the method reads an attribute that no processor has.\<close>

lemma weather_station_mapping_never_succeeds:
  "fst (weather_station_mapping w m p) = Inl AttributeError
   \<and> snd (weather_station_mapping w m p) = p"
  by (simp add: weather_station_mapping_def processor_getattr_def split: option.splits)

text \<open>
  Claim C6. The specification has the enrichment step fetch the station mapping and
  join it to the survey table, keeping the unmatched rows of both sides. On the
  processor that holds the survey table, in a world where the configured mapping file
  can be fetched, \<open>weather_station_mapping\<close> raises AttributeError whatever the join would
  do, and the table stays as it was: the method reads \<open>weather_map_data\<close>, while
  \<open>__init__\<close> stored the URL as \<open>weather_mapping_csv\<close>.
\<close>

theorem weather_station_mapping_attribute_error:
  "(\<forall>merge_outer. weather_station_mapping db_example merge_outer field_example
                    = (Inl AttributeError, field_example))
   \<and> read_from_web_CSV db_example (weather_mapping_csv field_example) = Inr mapping_table"
  by (simp add: weather_station_mapping_def processor_getattr_def field_example_def
        read_from_web_CSV_def db_example_def)

section \<open>The verdict of the report\<close>

text \<open>
  Claim C8. \<open>print_ttest_results\<close> writes three lines, a function of its arguments. The
  third is the rejection line exactly when \<open>p_val < alpha\<close> holds as a comparison of
  floats, and the non-rejection line otherwise; neither of the other two lines can be
  mistaken for a verdict. On finite values the comparison is the strict order of the
  reals, and it is false when either side is NaN.
\<close>

theorem print_ttest_results_verdict:
  "length (print_ttest_results str_of fmt5 station_id measurement p_val alpha) = 3
   \<and> print_ttest_results str_of fmt5 station_id measurement p_val alpha ! 2
       = (if float_lt p_val alpha then reject_line else not_reject_line)
   \<and> (reject_line \<in> set (print_ttest_results str_of fmt5 station_id measurement p_val alpha))
       = float_lt p_val alpha
   \<and> (not_reject_line \<in> set (print_ttest_results str_of fmt5 station_id measurement p_val alpha))
       = (\<not> float_lt p_val alpha)
   \<and> float_lt (Fin x) (Fin y) = (x < y)
   \<and> \<not> float_lt NaN alpha \<and> \<not> float_lt p_val NaN"
proof -
  have "\<not> float_lt p_val NaN"
    by (cases p_val) simp_all
  then show ?thesis
    by (simp add: print_ttest_results_def reject_line_def not_reject_line_def)
qed

section \<open>Message parsing\<close>

lemma first_not_none_replicate [simp]:
  "first_not_none (replicate n None @ Some x # later) = Some x"
  by (induction n) simp_all

lemma first_not_none_all_none: "\<forall>g\<in>set gs. g = None \<Longrightarrow> first_not_none gs = None"
  by (induction gs rule: first_not_none.induct) simp_all

lemma first_not_none_Some:
  "first_not_none gs = Some x \<Longrightarrow> \<exists>n later. gs = replicate n None @ Some x # later"
proof (induction gs rule: first_not_none.induct)
  case 1
  then show ?case by simp
next
  case (2 xs)
  then obtain n later where "xs = replicate n None @ Some x # later"
    by auto
  then have "None # xs = replicate (Suc n) None @ Some x # later"
    by simp
  then show ?case
    by blast
next
  case (3 y xs)
  then have "Some y # xs = replicate 0 None @ Some x # xs"
    by simp
  then show ?case
    by blast
qed

lemma extract_loop_skip:
  "\<forall>kp\<in>set before. search (snd kp) message = None \<Longrightarrow>
   extract_loop search to_float (before @ rest) message
     = extract_loop search to_float rest message"
  by (induction before) auto

lemma extract_loop_no_match:
  "\<forall>kp\<in>set ps. search (snd kp) message = None \<Longrightarrow>
   extract_loop search to_float ps message = Inr (None, None)"
  by (induction ps) auto

lemma extract_loop_returns:
  "extract_loop search to_float ps message = Inr (k, v) \<Longrightarrow>
   (k = None \<and> v = None \<and> (\<forall>kp\<in>set ps. search (snd kp) message = None))
   \<or> (\<exists>before key pat after n x later y.
         ps = before @ (key, pat) # after
         \<and> (\<forall>kp\<in>set before. search (snd kp) message = None)
         \<and> search pat message = Some (replicate n None @ Some x # later)
         \<and> to_float x = Some y \<and> k = Some key \<and> v = Some y)"
proof (induction ps)
  case Nil
  then show ?case by simp
next
  case (Cons kp ps)
  obtain key pat where kp: "kp = (key, pat)"
    by (cases kp)
  show ?case
  proof (cases "search pat message")
    case None
    with Cons.prems kp have "extract_loop search to_float ps message = Inr (k, v)"
      by simp
    from Cons.IH [OF this] show ?thesis
    proof (elim disjE exE conjE)
      assume "k = None" "v = None" "\<forall>kp\<in>set ps. search (snd kp) message = None"
      with None kp show ?thesis
        by simp
    next
      fix before key' pat' after n x later y
      assume ps: "ps = before @ (key', pat') # after"
        and nb: "\<forall>kp\<in>set before. search (snd kp) message = None"
        and rest: "search pat' message = Some (replicate n None @ Some x # later)"
          "to_float x = Some y" "k = Some key'" "v = Some y"
      from ps kp have "kp # ps = (kp # before) @ (key', pat') # after"
        by simp
      moreover from nb None kp have "\<forall>kp\<in>set (kp # before). search (snd kp) message = None"
        by simp
      ultimately show ?thesis
        using rest by blast
    qed
  next
    case (Some groups)
    with Cons.prems kp
    have E: "(case first_not_none groups of
                None \<Rightarrow> Inl StopIteration
              | Some x \<Rightarrow>
                  (case to_float x of
                     None \<Rightarrow> Inl (ValueError float_msg)
                   | Some v \<Rightarrow> Inr (Some key, Some v))) = Inr (k, v)"
      by simp
    then obtain x where x: "first_not_none groups = Some x"
      by (cases "first_not_none groups") auto
    with E obtain y where y: "to_float x = Some y" and kv: "k = Some key" "v = Some y"
      by (cases "to_float x") auto
    from first_not_none_Some [OF x] obtain n later
      where "groups = replicate n None @ Some x # later"
      by blast
    with Some have "search pat message = Some (replicate n None @ Some x # later)"
      by simp
    moreover from kp have "kp # ps = [] @ (key, pat) # ps"
      by simp
    ultimately show ?thesis
      using y kv by (metis empty_iff empty_set)
  qed
qed

lemma extract_loop_total:
  "\<forall>kp\<in>set ps. \<forall>gs. search (snd kp) message = Some gs \<longrightarrow>
      (\<exists>x v. first_not_none gs = Some x \<and> to_float x = Some v) \<Longrightarrow>
   \<exists>r. extract_loop search to_float ps message = Inr r"
proof (induction ps)
  case Nil
  then show ?case by simp
next
  case (Cons kp ps)
  obtain key pat where kp: "kp = (key, pat)"
    by (cases kp)
  show ?case
  proof (cases "search pat message")
    case None
    with Cons kp show ?thesis
      by simp
  next
    case (Some gs)
    with Cons.prems kp obtain x v where "first_not_none gs = Some x" "to_float x = Some v"
      by fastforce
    with Some kp show ?thesis
      by simp
  qed
qed

text \<open>
  Claim C2. \<open>extract_measurement\<close> tries the rules in the configured order. If no
  pattern matches the message, it returns \<open>(None, None)\<close> and raises nothing. If the first
  pattern that matches belongs to the rule \<open>key\<close>, and the first group of the match that
  is not None converts to the float \<open>y\<close>, it returns \<open>(key, y)\<close>. Conversely, whatever it
  returns is of one of these two forms.
\<close>

theorem extract_measurement_first_match:
  "((\<forall>kp\<in>set (patterns p). search (snd kp) message = None) \<longrightarrow>
      extract_measurement search to_float p message = Inr (None, None))
   \<and> (patterns p = before @ (key, pat) # after
        \<and> (\<forall>kp\<in>set before. search (snd kp) message = None)
        \<and> search pat message = Some (replicate n None @ Some x # later)
        \<and> to_float x = Some y \<longrightarrow>
      extract_measurement search to_float p message = Inr (Some key, Some y))
   \<and> (extract_measurement search to_float p message = Inr (k, v) \<longrightarrow>
        (k = None \<and> v = None \<and> (\<forall>kp\<in>set (patterns p). search (snd kp) message = None))
        \<or> (\<exists>before key pat after n x later y.
              patterns p = before @ (key, pat) # after
              \<and> (\<forall>kp\<in>set before. search (snd kp) message = None)
              \<and> search pat message = Some (replicate n None @ Some x # later)
              \<and> to_float x = Some y \<and> k = Some key \<and> v = Some y))"
proof (intro conjI impI)
  assume "\<forall>kp\<in>set (patterns p). search (snd kp) message = None"
  then show "extract_measurement search to_float p message = Inr (None, None)"
    by (simp add: extract_measurement_def extract_loop_no_match)
next
  assume "patterns p = before @ (key, pat) # after
        \<and> (\<forall>kp\<in>set before. search (snd kp) message = None)
        \<and> search pat message = Some (replicate n None @ Some x # later)
        \<and> to_float x = Some y"
  then show "extract_measurement search to_float p message = Inr (Some key, Some y)"
    by (simp add: extract_measurement_def extract_loop_skip)
next
  assume "extract_measurement search to_float p message = Inr (k, v)"
  then show "(k = None \<and> v = None \<and> (\<forall>kp\<in>set (patterns p). search (snd kp) message = None))
        \<or> (\<exists>before key pat after n x later y.
              patterns p = before @ (key, pat) # after
              \<and> (\<forall>kp\<in>set before. search (snd kp) message = None)
              \<and> search pat message = Some (replicate n None @ Some x # later)
              \<and> to_float x = Some y \<and> k = Some key \<and> v = Some y)"
    unfolding extract_measurement_def by (rule extract_loop_returns)
qed


theorem extract_measurement_first_match_witness:
  "search_example rain_pattern ''station offline'' = None
   \<and> search_example temp_pattern ''station offline'' = None
   \<and> extract_measurement search_example to_float_example weather_example ''station offline''
       = Inr (None, None)
   \<and> patterns weather_example = [(''Rainfall'', rain_pattern)] @ (''Temperature'', temp_pattern) # []
   \<and> search_example rain_pattern ''Temperature: 19.5 C'' = None
   \<and> search_example temp_pattern ''Temperature: 19.5 C''
       = Some (replicate 0 None @ Some ''19.5'' # [])
   \<and> to_float_example ''19.5'' = Some (Fin (39 / 2))
   \<and> extract_measurement search_example to_float_example weather_example ''Temperature: 19.5 C''
       = Inr (Some ''Temperature'', Some (Fin (39 / 2)))"
proof -
  have pats: "patterns weather_example
                = [(''Rainfall'', rain_pattern)] @ (''Temperature'', temp_pattern) # []"
    by (simp add: weather_example_def)
  have off: "search_example rain_pattern ''station offline'' = None"
    "search_example temp_pattern ''station offline'' = None"
    by (simp_all add: search_example_def)
  then have none: "\<forall>kp\<in>set (patterns weather_example).
                     search_example (snd kp) ''station offline'' = None"
    by (simp add: weather_example_def)
  have skip: "search_example rain_pattern ''Temperature: 19.5 C'' = None"
    by (simp add: search_example_def rain_pattern_def temp_pattern_def)
  then have before: "\<forall>kp\<in>set [(''Rainfall'', rain_pattern)].
                       search_example (snd kp) ''Temperature: 19.5 C'' = None"
    by simp
  have hit: "search_example temp_pattern ''Temperature: 19.5 C''
               = Some (replicate 0 None @ Some ''19.5'' # [])"
    by (simp add: search_example_def)
  have num: "to_float_example ''19.5'' = Some (Fin (39 / 2))"
    by (simp add: to_float_example_def)
  note inst = extract_measurement_first_match
    [where p = weather_example and search = search_example and to_float = to_float_example]
  from inst [where message = "''station offline''"] none
  have r1: "extract_measurement search_example to_float_example weather_example
              ''station offline'' = Inr (None, None)"
    by blast
  from inst [where message = "''Temperature: 19.5 C''" and before = "[(''Rainfall'', rain_pattern)]"
      and key = "''Temperature''" and pat = temp_pattern and after = "[]" and n = 0
      and x = "''19.5''" and later = "[]" and y = "Fin (39 / 2)"]
    pats before hit num
  have r2: "extract_measurement search_example to_float_example weather_example
              ''Temperature: 19.5 C'' = Inr (Some ''Temperature'', Some (Fin (39 / 2)))"
    by blast
  from off r1 pats skip hit num r2 show ?thesis
    by (intro conjI)
qed

text \<open>
  Claim C9, amended. \<open>extract_measurement\<close> raises instead of returning \<open>(None, None)\<close>
  in two cases: StopIteration when every group of the first match is None, ValueError
  when the first group that is not None does not convert to a float. If for every
  pattern that matches the message the first group that is not None exists and
  converts, the call returns a pair.
\<close>

theorem extract_measurement_error_branches:
  "(patterns p = before @ (key, pat) # after
      \<and> (\<forall>kp\<in>set before. search (snd kp) message = None)
      \<and> search pat message = Some groups
      \<and> (\<forall>g\<in>set groups. g = None) \<longrightarrow>
    extract_measurement search to_float p message = Inl StopIteration)
   \<and> (patterns p = before @ (key, pat) # after
        \<and> (\<forall>kp\<in>set before. search (snd kp) message = None)
        \<and> search pat message = Some (replicate n None @ Some x # later)
        \<and> to_float x = None \<longrightarrow>
      extract_measurement search to_float p message = Inl (ValueError float_msg))
   \<and> ((\<forall>kp\<in>set (patterns p). \<forall>gs. search (snd kp) message = Some gs \<longrightarrow>
          (\<exists>n x later y. gs = replicate n None @ Some x # later \<and> to_float x = Some y)) \<longrightarrow>
      (\<exists>r. extract_measurement search to_float p message = Inr r))"
proof (intro conjI impI)
  assume "patterns p = before @ (key, pat) # after
      \<and> (\<forall>kp\<in>set before. search (snd kp) message = None)
      \<and> search pat message = Some groups
      \<and> (\<forall>g\<in>set groups. g = None)"
  then show "extract_measurement search to_float p message = Inl StopIteration"
    by (simp add: extract_measurement_def extract_loop_skip first_not_none_all_none)
next
  assume "patterns p = before @ (key, pat) # after
        \<and> (\<forall>kp\<in>set before. search (snd kp) message = None)
        \<and> search pat message = Some (replicate n None @ Some x # later)
        \<and> to_float x = None"
  then show "extract_measurement search to_float p message = Inl (ValueError float_msg)"
    by (simp add: extract_measurement_def extract_loop_skip)
next
  assume pre: "\<forall>kp\<in>set (patterns p). \<forall>gs. search (snd kp) message = Some gs \<longrightarrow>
          (\<exists>n x later y. gs = replicate n None @ Some x # later \<and> to_float x = Some y)"
  have "\<forall>kp\<in>set (patterns p). \<forall>gs. search (snd kp) message = Some gs \<longrightarrow>
          (\<exists>x v. first_not_none gs = Some x \<and> to_float x = Some v)"
  proof (intro ballI allI impI)
    fix kp gs
    assume "kp \<in> set (patterns p)" "search (snd kp) message = Some gs"
    with pre obtain n x later y
      where "gs = replicate n None @ Some x # later" "to_float x = Some y"
      by blast
    then show "\<exists>x v. first_not_none gs = Some x \<and> to_float x = Some v"
      by auto
  qed
  then show "\<exists>r. extract_measurement search to_float p message = Inr r"
    unfolding extract_measurement_def by (rule extract_loop_total)
qed

theorem extract_measurement_error_branches_witness:
  "patterns weather_example = [] @ (''Rainfall'', rain_pattern) # [(''Temperature'', temp_pattern)]
   \<and> search_example rain_pattern ''Rainfall: none'' = Some [None]
   \<and> extract_measurement search_example to_float_example weather_example ''Rainfall: none''
       = Inl StopIteration
   \<and> patterns weather_example = [(''Rainfall'', rain_pattern)] @ (''Temperature'', temp_pattern) # []
   \<and> search_example rain_pattern ''Temperature: 1.2.3 C'' = None
   \<and> search_example temp_pattern ''Temperature: 1.2.3 C''
       = Some (replicate 0 None @ Some ''1.2.3'' # [])
   \<and> to_float_example ''1.2.3'' = None
   \<and> extract_measurement search_example to_float_example weather_example ''Temperature: 1.2.3 C''
       = Inl (ValueError float_msg)
   \<and> search_example rain_pattern ''Temperature: 19.5 C'' = None
   \<and> search_example temp_pattern ''Temperature: 19.5 C''
       = Some (replicate 0 None @ Some ''19.5'' # [])
   \<and> to_float_example ''19.5'' = Some (Fin (39 / 2))
   \<and> (\<exists>r. extract_measurement search_example to_float_example weather_example
              ''Temperature: 19.5 C'' = Inr r)"
proof -
  note inst = extract_measurement_error_branches
    [where p = weather_example and search = search_example and to_float = to_float_example]
  have pats0: "patterns weather_example
                 = [] @ (''Rainfall'', rain_pattern) # [(''Temperature'', temp_pattern)]"
    by (simp add: weather_example_def)
  have pats1: "patterns weather_example
                 = [(''Rainfall'', rain_pattern)] @ (''Temperature'', temp_pattern) # []"
    by (simp add: weather_example_def)
  have null: "search_example rain_pattern ''Rainfall: none'' = Some [None]"
    by (simp add: search_example_def rain_pattern_def temp_pattern_def)
  from inst [where message = "''Rainfall: none''" and before = "[]" and key = "''Rainfall''"
      and pat = rain_pattern and after = "[(''Temperature'', temp_pattern)]"
      and groups = "[None]"] pats0 null
  have r1: "extract_measurement search_example to_float_example weather_example
              ''Rainfall: none'' = Inl StopIteration"
    by simp
  have skip2: "search_example rain_pattern ''Temperature: 1.2.3 C'' = None"
    by (simp add: search_example_def rain_pattern_def temp_pattern_def)
  have hit2: "search_example temp_pattern ''Temperature: 1.2.3 C''
                = Some (replicate 0 None @ Some ''1.2.3'' # [])"
    by (simp add: search_example_def)
  have bad: "to_float_example ''1.2.3'' = None"
    by (simp add: to_float_example_def)
  from inst [where message = "''Temperature: 1.2.3 C''" and before = "[(''Rainfall'', rain_pattern)]"
      and key = "''Temperature''" and pat = temp_pattern and after = "[]" and n = 0
      and x = "''1.2.3''" and later = "[]"] pats1 skip2 hit2 bad
  have r2: "extract_measurement search_example to_float_example weather_example
              ''Temperature: 1.2.3 C'' = Inl (ValueError float_msg)"
    by simp
  have skip3: "search_example rain_pattern ''Temperature: 19.5 C'' = None"
    by (simp add: search_example_def rain_pattern_def temp_pattern_def)
  have hit3: "search_example temp_pattern ''Temperature: 19.5 C''
                = Some (replicate 0 None @ Some ''19.5'' # [])"
    by (simp add: search_example_def)
  have num: "to_float_example ''19.5'' = Some (Fin (39 / 2))"
    by (simp add: to_float_example_def)
  have pre: "\<forall>kp\<in>set (patterns weather_example). \<forall>gs.
               search_example (snd kp) ''Temperature: 19.5 C'' = Some gs \<longrightarrow>
               (\<exists>n x later y. gs = replicate n None @ Some x # later
                    \<and> to_float_example x = Some y)"
  proof -
    have "\<exists>n x later y. replicate 0 None @ Some ''19.5'' # [] = replicate n None @ Some x # later
            \<and> to_float_example x = Some y"
      using num by blast
    with skip3 hit3 show ?thesis
      by (simp add: weather_example_def)
  qed
  from inst [where message = "''Temperature: 19.5 C''"] pre
  have r3: "\<exists>r. extract_measurement search_example to_float_example weather_example
              ''Temperature: 19.5 C'' = Inr r"
    by blast
  from pats0 null r1 pats1 skip2 hit2 bad r2 skip3 hit3 num r3 show ?thesis
    by (intro conjI)
qed

text \<open>
  The precondition of claim C9 as it is worded, that a matching pattern captures some
  group that is not None and is numeric, is not enough: here the only pattern captures
  the numeric group \<open>19.5\<close>, but the first group is a word, and the call raises
  ValueError.
\<close>

theorem extract_measurement_numeric_group_counterexample:
  "patterns weather_keyed = [(''Temperature'', keyed_pattern)]
   \<and> search_example keyed_pattern ''temp=19.5'' = Some [Some ''temp'', Some ''19.5'']
   \<and> to_float_example ''19.5'' = Some (Fin (39 / 2))
   \<and> extract_measurement search_example to_float_example weather_keyed ''temp=19.5''
       = Inl (ValueError float_msg)"
  by (simp add: weather_keyed_def search_example_def keyed_pattern_def temp_pattern_def
        rain_pattern_def to_float_example_def extract_measurement_def)

section \<open>Value correction\<close>

lemma try_map_Inr:
  assumes "\<And>x y. f x = Inr y \<Longrightarrow> y = g x"
  shows "try_map f xs = Inr ys \<Longrightarrow> ys = map g xs"
proof (induction xs arbitrary: ys)
  case Nil
  then show ?case by simp
next
  case (Cons x xs)
  then show ?case
    by (auto split: sum.splits dest: assms)
qed

lemma cell_abs_Inr: "cell_abs c = Inr c' \<Longrightarrow> c' = abs_val c"
  by (cases c) (auto simp: cell_abs_def abs_val_def)

lemma series_abs_Inr: "series_abs s = Inr s' \<Longrightarrow> s' = map abs_val s"
  unfolding series_abs_def by (rule try_map_Inr [OF cell_abs_Inr])

lemma frame_abs_Inr: "frame_abs cols = Inr cols' \<Longrightarrow> cols' = map (map abs_val) cols"
  unfolding frame_abs_def by (rule try_map_Inr [OF series_abs_Inr])

lemma replace_cols_map:
  "replace_cols d l (map f (map snd (filter (\<lambda>lc. fst lc = l) d))) = map_col l f d"
  by (induction d) (auto simp: map_col_def)

lemma getitem_Inr:
  "getitem d l = Inr cols \<Longrightarrow>
   cols = map snd (filter (\<lambda>lc. fst lc = l) d) \<and> l \<in> set (columns_of d)"
  by (force simp: getitem_alt columns_of_def filter_empty_conv split: if_splits)

lemma setitem_map:
  assumes "getitem d l = Inr cols"
  shows "setitem d l (map f cols) = map_col l f d"
  using getitem_Inr [OF assms] replace_cols_map [of d l f]
  by (simp add: setitem_def del: map_map)

lemma columns_of_map_col [simp]: "columns_of (map_col l f d) = columns_of d"
  by (simp add: columns_of_def map_col_def comp_def)

lemma length_map_col [simp]: "length (map_col l f d) = length d"
  by (simp add: map_col_def)

lemma map_col_other: "i < length d \<Longrightarrow> fst (d ! i) \<noteq> l \<Longrightarrow> map_col l f d ! i = d ! i"
  by (simp add: map_col_def)

lemma map_col_lengths:
  assumes "\<And>s. length (f s) = length s"
  shows "map (length \<circ> snd) (map_col l f d) = map (length \<circ> snd) d"
  by (simp add: map_col_def assms)

lemma nrows_map_col:
  assumes "\<And>s. length (f s) = length s"
  shows "nrows (map_col l f d) = nrows d"
  by (cases d) (auto simp: nrows_def map_col_def assms)

text \<open>What the call leaves behind, in every outcome.\<close>

lemma apply_corrections_outcome:
  assumes "df p = Some d"
  shows "\<exists>d'. snd (apply_corrections p column_name abs_column) = p\<lparr>df := Some d'\<rparr>
     \<and> (d' = d \<or> d' = map_col abs_column (map abs_val) d
         \<or> d' = map_col column_name (map (rename_value (values_to_rename p)))
                  (map_col abs_column (map abs_val) d))"
proof (cases "getitem d abs_column")
  case (Inl e)
  with assms have "snd (apply_corrections p column_name abs_column) = p\<lparr>df := Some d\<rparr>"
    by (simp add: apply_corrections_def)
  then show ?thesis
    by blast
next
  case g1: (Inr cols)
  show ?thesis
  proof (cases "frame_abs cols")
    case (Inl e)
    with assms g1 have "snd (apply_corrections p column_name abs_column) = p\<lparr>df := Some d\<rparr>"
      by (simp add: apply_corrections_def)
    then show ?thesis
      by blast
  next
    case (Inr cols')
    let ?d1 = "map_col abs_column (map abs_val) d"
    from frame_abs_Inr [OF Inr] have "setitem d abs_column cols' = ?d1"
      using setitem_map [OF g1] by simp
    then have d1: "setitem d abs_column cols' = ?d1" .
    show ?thesis
    proof (cases "getitem ?d1 column_name")
      case (Inl e)
      with assms g1 Inr d1
      have "snd (apply_corrections p column_name abs_column) = p\<lparr>df := Some ?d1\<rparr>"
        by (simp add: apply_corrections_def Let_def)
      then show ?thesis
        by blast
    next
      case g2: (Inr cs)
      show ?thesis
      proof (cases "\<exists>s. cs = [s]")
        case True
        then obtain s where s: "cs = [s]"
          by blast
        from setitem_map [OF g2, of "map (rename_value (values_to_rename p))"] s
        have "setitem ?d1 column_name [map (rename_value (values_to_rename p)) s]
              = map_col column_name (map (rename_value (values_to_rename p))) ?d1"
          by simp
        with assms g1 Inr d1 g2 s
        have "snd (apply_corrections p column_name abs_column)
              = p\<lparr>df := Some (map_col column_name (map (rename_value (values_to_rename p))) ?d1)\<rparr>"
          by (simp add: apply_corrections_def Let_def)
        then show ?thesis
          by blast
      next
        case False
        then have "cs = [] \<or> (\<exists>a b r. cs = a # b # r)"
          by (cases cs; cases "tl cs") auto
        with assms g1 Inr d1 g2
        have "snd (apply_corrections p column_name abs_column) = p\<lparr>df := Some ?d1\<rparr>"
          by (auto simp: apply_corrections_def Let_def)
        then show ?thesis
          by blast
      qed
    qed
  qed
qed


lemma fst_map_col_nth: "i < length d \<Longrightarrow> fst (map_col l f d ! i) = fst (d ! i)"
  by (simp add: map_col_def)

lemma map_col_frame:
  assumes len: "\<And>s. length (f s) = length s"
  shows "columns_of (map_col l f d) = columns_of d
       \<and> length (map_col l f d) = length d
       \<and> map (length \<circ> snd) (map_col l f d) = map (length \<circ> snd) d
       \<and> nrows (map_col l f d) = nrows d
       \<and> (\<forall>i<length d. fst (d ! i) \<noteq> l \<longrightarrow> map_col l f d ! i = d ! i)"
  using map_col_lengths [of f l d, OF len] nrows_map_col [of f l d, OF len]
  by (simp add: map_col_other)

text \<open>
  Claim C10. Whatever \<open>apply_corrections\<close> does to a processor that holds a table, and
  also when it raises, the processor differs from the one before at most in its
  table, and the table it is left with has the same labels in the same order, the same
  number of columns, each column as long as before, the same number of rows, and every
  column whose label is neither \<open>abs_column\<close> nor \<open>column_name\<close> exactly as it was.
\<close>

theorem apply_corrections_frame:
  assumes "df p = Some d"
  shows "\<exists>d'. snd (apply_corrections p column_name abs_column) = p\<lparr>df := Some d'\<rparr>
     \<and> columns_of d' = columns_of d
     \<and> length d' = length d
     \<and> map (length \<circ> snd) d' = map (length \<circ> snd) d
     \<and> nrows d' = nrows d
     \<and> (\<forall>i<length d. fst (d ! i) \<noteq> abs_column \<and> fst (d ! i) \<noteq> column_name
            \<longrightarrow> d' ! i = d ! i)"
proof -
  let ?A = "map abs_val" and ?G = "map (rename_value (values_to_rename p))"
  let ?d1 = "map_col abs_column ?A d"
  let ?d2 = "map_col column_name ?G ?d1"
  let ?frame = "\<lambda>d'. columns_of d' = columns_of d
     \<and> length d' = length d
     \<and> map (length \<circ> snd) d' = map (length \<circ> snd) d
     \<and> nrows d' = nrows d
     \<and> (\<forall>i<length d. fst (d ! i) \<noteq> abs_column \<and> fst (d ! i) \<noteq> column_name
            \<longrightarrow> d' ! i = d ! i)"
  have f0: "?frame d"
    by simp
  have s1: "columns_of ?d1 = columns_of d \<and> length ?d1 = length d
       \<and> map (length \<circ> snd) ?d1 = map (length \<circ> snd) d \<and> nrows ?d1 = nrows d
       \<and> (\<forall>i<length d. fst (d ! i) \<noteq> abs_column \<longrightarrow> ?d1 ! i = d ! i)"
    by (rule map_col_frame) simp
  then have f1: "?frame ?d1"
    by simp
  have s2: "columns_of ?d2 = columns_of ?d1 \<and> length ?d2 = length ?d1
       \<and> map (length \<circ> snd) ?d2 = map (length \<circ> snd) ?d1 \<and> nrows ?d2 = nrows ?d1
       \<and> (\<forall>i<length ?d1. fst (?d1 ! i) \<noteq> column_name \<longrightarrow> ?d2 ! i = ?d1 ! i)"
    by (rule map_col_frame) simp
  have f2: "?frame ?d2"
  proof (intro conjI allI impI)
    fix i
    assume i: "i < length d" and other: "fst (d ! i) \<noteq> abs_column \<and> fst (d ! i) \<noteq> column_name"
    from i other have "fst (?d1 ! i) \<noteq> column_name"
      by (simp add: fst_map_col_nth)
    with s2 i have "?d2 ! i = ?d1 ! i"
      by simp
    also from s1 i other have "?d1 ! i = d ! i"
      by simp
    finally show "?d2 ! i = d ! i" .
  qed (use s1 s2 in simp_all)
  from apply_corrections_outcome [OF assms, of column_name abs_column]
  obtain d' where snd: "snd (apply_corrections p column_name abs_column) = p\<lparr>df := Some d'\<rparr>"
    and cases: "d' = d \<or> d' = ?d1 \<or> d' = ?d2"
    by blast
  from cases f0 f1 f2 have "?frame d'"
    by blast
  with snd show ?thesis
    by blast
qed

text \<open>The default call on the relabelled survey table succeeds and yields the corrected
  table.\<close>

lemma apply_corrections_example:
  "apply_corrections field_renamed ''Crop_type'' ''Elevation''
     = (Inr (), field_renamed\<lparr>df := Some corrected_table\<rparr>)"
  by (simp add: apply_corrections_def field_renamed_def field_example_def renamed_table_def
        corrected_table_def getitem_def frame_abs_def series_abs_def cell_abs_def setitem_def
        columns_of_def rename_value_def Let_def)

theorem apply_corrections_frame_witness:
  "df field_renamed = Some renamed_table
   \<and> apply_corrections field_renamed ''Crop_type'' ''Elevation''
       = (Inr (), field_renamed\<lparr>df := Some corrected_table\<rparr>)
   \<and> columns_of corrected_table = columns_of renamed_table
   \<and> nrows corrected_table = nrows renamed_table
   \<and> corrected_table ! 0 = renamed_table ! 0
   \<and> corrected_table ! 3 = renamed_table ! 3"
proof -
  have h: "df field_renamed = Some renamed_table"
    by (simp add: field_renamed_def)
  from apply_corrections_frame [OF h, of "''Crop_type''" "''Elevation''"]
  obtain d' where snd: "snd (apply_corrections field_renamed ''Crop_type'' ''Elevation'')
                         = field_renamed\<lparr>df := Some d'\<rparr>"
    and cols: "columns_of d' = columns_of renamed_table"
    and rows: "nrows d' = nrows renamed_table"
    and other: "\<forall>i<length renamed_table.
                  fst (renamed_table ! i) \<noteq> ''Elevation'' \<and> fst (renamed_table ! i) \<noteq> ''Crop_type''
                  \<longrightarrow> d' ! i = renamed_table ! i"
    by blast
  from snd have "df (field_renamed\<lparr>df := Some d'\<rparr>) = df (field_renamed\<lparr>df := Some corrected_table\<rparr>)"
    by (simp add: apply_corrections_example)
  then have d': "d' = corrected_table"
    by simp
  have "0 < length renamed_table \<and> fst (renamed_table ! 0) \<noteq> ''Elevation''
          \<and> fst (renamed_table ! 0) \<noteq> ''Crop_type''"
    by (simp add: renamed_table_def)
  with other have c0: "d' ! 0 = renamed_table ! 0"
    by blast
  have "3 < length renamed_table \<and> fst (renamed_table ! 3) \<noteq> ''Elevation''
          \<and> fst (renamed_table ! 3) \<noteq> ''Crop_type''"
    by (simp add: renamed_table_def)
  with other have c3: "d' ! 3 = renamed_table ! 3"
    by blast
  from h apply_corrections_example cols rows c0 c3 show ?thesis
    unfolding d' by (intro conjI)
qed

lemma rename_value_idem_iff:
  "(\<forall>v. rename_value m (rename_value m v) = rename_value m v)
   = (\<forall>k c. m k = Some c \<longrightarrow> m c = None \<or> m c = Some c)"
proof
  assume idem: "\<forall>v. rename_value m (rename_value m v) = rename_value m v"
  show "\<forall>k c. m k = Some c \<longrightarrow> m c = None \<or> m c = Some c"
  proof (intro allI impI)
    fix k c
    assume kc: "m k = Some c"
    from idem have "rename_value m (rename_value m (Str k)) = rename_value m (Str k)"
      by blast
    with kc have "rename_value m (Str c) = Str c"
      by (simp add: rename_value_def)
    then show "m c = None \<or> m c = Some c"
      by (cases "m c") (simp_all add: rename_value_def)
  qed
next
  assume canon: "\<forall>k c. m k = Some c \<longrightarrow> m c = None \<or> m c = Some c"
  show "\<forall>v. rename_value m (rename_value m v) = rename_value m v"
  proof
    fix v
    show "rename_value m (rename_value m v) = rename_value m v"
    proof (cases v)
      case (Str s)
      show ?thesis
      proof (cases "m s")
        case None
        with Str show ?thesis
          by (simp add: rename_value_def)
      next
        case (Some c)
        with canon have "m c = None \<or> m c = Some c"
          by blast
        with Str Some show ?thesis
          by (auto simp: rename_value_def)
      qed
    qed (simp_all add: rename_value_def)
  qed
qed

text \<open>
  Claim C5, amended. The correction of one value is a total function: a string that is
  a key of the mapping becomes its canonical form, a string that is not a key stays,
  and so does a cell that is not a string. Applying it twice equals applying it once
  exactly when every canonical form of the mapping is not a key or is mapped to itself;
  under that condition correcting a column twice equals correcting it once.
\<close>

theorem rename_value_canonical:
  "(m s = Some c \<longrightarrow> rename_value m (Str s) = Str c)
   \<and> (m s = None \<longrightarrow> rename_value m (Str s) = Str s)
   \<and> rename_value m Null = Null
   \<and> rename_value m (Num x) = Num x
   \<and> ((\<forall>v. rename_value m (rename_value m v) = rename_value m v)
        = (\<forall>k c. m k = Some c \<longrightarrow> m c = None \<or> m c = Some c))
   \<and> ((\<forall>k c. m k = Some c \<longrightarrow> m c = None \<or> m c = Some c) \<longrightarrow>
        map (rename_value m) (map (rename_value m) col) = map (rename_value m) col)"
proof -
  have "map (rename_value m) (map (rename_value m) col) = map (rename_value m) col"
    if "\<forall>k c. m k = Some c \<longrightarrow> m c = None \<or> m c = Some c"
  proof -
    from that have "\<forall>v. rename_value m (rename_value m v) = rename_value m v"
      by (simp only: rename_value_idem_iff)
    then show ?thesis
      by simp
  qed
  then have cols: "(\<forall>k c. m k = Some c \<longrightarrow> m c = None \<or> m c = Some c) \<longrightarrow>
        map (rename_value m) (map (rename_value m) col) = map (rename_value m) col"
    by blast
  have mapped: "m s = Some c \<longrightarrow> rename_value m (Str s) = Str c"
    by (simp add: rename_value_def)
  have unmapped: "m s = None \<longrightarrow> rename_value m (Str s) = Str s"
    by (simp add: rename_value_def)
  have null: "rename_value m Null = Null"
    by (simp add: rename_value_def)
  have num: "rename_value m (Num x) = Num x"
    by (simp add: rename_value_def)
  from mapped unmapped null num rename_value_idem_iff [of m] cols show ?thesis
    by (intro conjI)
qed

theorem rename_value_canonical_witness:
  "values_to_rename field_example ''wheatn'' = Some ''wheat''
   \<and> rename_value (values_to_rename field_example) (Str ''wheatn'') = Str ''wheat''
   \<and> values_to_rename field_example ''maize'' = None
   \<and> rename_value (values_to_rename field_example) (Str ''maize'') = Str ''maize''
   \<and> (\<forall>v. rename_value (values_to_rename field_example)
             (rename_value (values_to_rename field_example) v)
           = rename_value (values_to_rename field_example) v)
   \<and> (\<forall>col. map (rename_value (values_to_rename field_example))
               (map (rename_value (values_to_rename field_example)) col)
             = map (rename_value (values_to_rename field_example)) col)"
proof -
  let ?m = "values_to_rename field_example"
  have k: "?m ''wheatn'' = Some ''wheat''"
    by (simp add: field_example_def)
  have u: "?m ''maize'' = None"
    by (simp add: field_example_def)
  have canon: "\<forall>k c. ?m k = Some c \<longrightarrow> ?m c = None \<or> ?m c = Some c"
    by (auto simp: field_example_def split: if_splits)
  note inst = rename_value_canonical [where m = ?m]
  from inst [where s = "''wheatn''" and c = "''wheat''"] k
  have r1: "rename_value ?m (Str ''wheatn'') = Str ''wheat''"
    by blast
  from inst [where s = "''maize''"] u
  have r2: "rename_value ?m (Str ''maize'') = Str ''maize''"
    by blast
  from inst canon
  have r3: "\<forall>v. rename_value ?m (rename_value ?m v) = rename_value ?m v"
    by blast
  from inst canon
  have r4: "\<forall>col. map (rename_value ?m) (map (rename_value ?m) col) = map (rename_value ?m) col"
    by blast
  from k r1 u r2 r3 r4 show ?thesis
    by (intro conjI)
qed

text \<open>
  Claim C5 as it is worded fails for a mapping in which a canonical form is a key: the
  first correction of \<open>teaa\<close> gives \<open>tea\<close>, the second gives \<open>Tea\<close>.
\<close>

theorem rename_value_chain_counterexample:
  "chain_mapping ''teaa'' = Some ''tea''
   \<and> rename_value chain_mapping (Str ''teaa'') = Str ''tea''
   \<and> rename_value chain_mapping (rename_value chain_mapping (Str ''teaa'')) = Str ''Tea''"
  by (simp add: chain_mapping_def rename_value_def)

section \<open>Aggregation\<close>









lemma calculate_means_not_loaded:
  "weather_df p = None \<Longrightarrow> calculate_means float_mean p = Inr None"
  by (simp add: calculate_means_def)









end
